theory Spec2Isabelle
  imports Main "HOL-Library.Multiset" "HOL-Library.Product_Lexorder"
begin

section \<open>Python values and exceptions\<close>

text \<open>
  The program is one Python module, \<^verbatim>\<open>get_retraction_metadata.py\<close>. Its functions
  receive dynamically typed values, and some of them raise. A raised exception is a value
  \<open>Inl e\<close> of a sum type; a returned value is \<open>Inr v\<close>. Only subclasses of
  \<^verbatim>\<open>Exception\<close> are modelled, since those are what the program's handlers catch.
\<close>

datatype error =
    KeyError
  | AttributeError
  | TypeError
  | ValueError
  | OSError
  | UnicodeError
  | ParserError
  | ConnectionError

text \<open>
  The scalar values that reach \<^verbatim>\<open>standardize_date\<close>: \<^verbatim>\<open>None\<close>, the float NaN
  (\<^verbatim>\<open>np.nan\<close>), a string, or a number. Containers are left out.
\<close>

datatype pyval = PyNone | PyNaN | PyStr string | PyInt int

text \<open>\<^verbatim>\<open>pd.isna\<close> on a scalar: true for \<^verbatim>\<open>None\<close> and NaN, false for strings and numbers.\<close>

fun py_isna :: "pyval \<Rightarrow> bool" where
  "py_isna PyNone = True"
| "py_isna PyNaN = True"
| "py_isna (PyStr s) = False"
| "py_isna (PyInt n) = False"

text \<open>
  \<^verbatim>\<open>str.split(sep)\<close> for a one-character separator: the string is cut at every occurrence
  of the separator, empty pieces are kept, and the empty string gives one empty piece. The
  result is never empty, so the \<open>[]\<close> branch of the \<open>case\<close> is not taken. A HOL string
  is a string of bytes; the separator of the program, \<^verbatim>\<open>-\<close>, is one byte that is part of
  no longer UTF-8 sequence, so cutting the bytes at it cuts the characters at it.
\<close>

fun py_split :: "char \<Rightarrow> string \<Rightarrow> string list" where
  "py_split sep [] = [[]]"
| "py_split sep (c # cs) =
     (if c = sep then [] # py_split sep cs
      else (case py_split sep cs of
              [] \<Rightarrow> [[c]]
            | p # ps \<Rightarrow> (c # p) # ps))"

section \<open>Date normalizer\<close>

text \<open>
  \<^verbatim>\<open>
  def standardize_date(date_str):
      if pd.isna(date_str):
          return np.nan
      parts = date_str.split('-')
      if len(parts) == 1:  # Only year is present
          return np.nan
      elif len(parts) == 2:  # Year and month are present
          return date_str + '-01'
      elif len(parts) == 3:  # Full date is present
          return date_str
      return np.nan  # For any other case that doesn't match expected patterns
  \<close>
  The function returns \<^verbatim>\<open>np.nan\<close> or a string: \<open>None\<close> stands for \<^verbatim>\<open>np.nan\<close>, the
  unknown marker. A number has no \<^verbatim>\<open>split\<close> attribute, so the call raises
  \<^verbatim>\<open>AttributeError\<close>.
\<close>

fun standardize_date :: "pyval \<Rightarrow> error + string option" where
  "standardize_date PyNone = Inr None"
| "standardize_date PyNaN = Inr None"
| "standardize_date (PyInt n) = Inl AttributeError"
| "standardize_date (PyStr date_str) =
     (let parts = py_split CHR ''-'' date_str in
      if length parts = 1 then Inr None
      else if length parts = 2 then Inr (Some (date_str @ ''-01''))
      else if length parts = 3 then Inr (Some date_str)
      else Inr None)"

section \<open>Dates and timestamps\<close>

text \<open>
  A calendar date is a value of a linearly ordered type \<open>'d\<close>. A pandas
  \<^verbatim>\<open>Timestamp\<close> (and a Python \<^verbatim>\<open>datetime\<close>) is a pair of a calendar date and a time
  of day, ordered by the date first and the time of day second; all timestamps are
  timezone-naive. The Python objects that can stand for a target date are
  \<^verbatim>\<open>datetime.date\<close> and \<^verbatim>\<open>datetime.datetime\<close>.
\<close>

datatype 'd pydate = PyDate 'd | PyDatetime 'd nat

text \<open>\<^verbatim>\<open>pd.to_datetime\<close> of a date object is midnight of that date; of a datetime, the same instant.\<close>

fun pd_to_datetime_obj :: "'d pydate \<Rightarrow> 'd \<times> nat" where
  "pd_to_datetime_obj (PyDate d) = (d, 0)"
| "pd_to_datetime_obj (PyDatetime d t) = (d, t)"

text \<open>
  Parsing a string is the work of the libraries: \<^verbatim>\<open>pd.to_datetime(s)\<close> in
  \<^verbatim>\<open>count_citations\<close> and \<^verbatim>\<open>datetime.strptime(s, '%Y-%m-%d')\<close> in
  \<^verbatim>\<open>process_citation_counts\<close>. Each is a parameter of the function that calls it, of
  type \<open>string \<Rightarrow> error + 'd \<times> nat\<close>: it raises or returns a timestamp.
\<close>

type_synonym 'd parser = "string \<Rightarrow> error + 'd \<times> nat"

section \<open>Citation partitioner\<close>

text \<open>A citation entry is a dictionary from field names to values.\<close>

type_synonym citation = "string \<rightharpoonup> pyval"

record counts =
  before :: nat
  after :: nat

text \<open>
  \<^verbatim>\<open>
  def count_citations(citations, target_date):
      before_count = 0
      after_count = 0
      target_date = pd.to_datetime(target_date)
      for citation in citations:
          creation_date = standardize_date(citation['creation'])
          if pd.isna(creation_date):
              continue
          creation_date = pd.to_datetime(creation_date)
          if creation_date < target_date:
              before_count += 1
          elif creation_date > target_date:
              after_count += 1
      return {'before': before_count, 'after': after_count}
  \<close>
  The loop is a recursion over the list with the two counters as accumulators. A missing
  \<^verbatim>\<open>'creation'\<close> key raises \<^verbatim>\<open>KeyError\<close>; an exception of \<^verbatim>\<open>standardize_date\<close> or
  of the parser leaves the loop at once.
\<close>

fun count_loop ::
  "'d::linorder parser \<Rightarrow> 'd \<times> nat \<Rightarrow> citation list \<Rightarrow> nat \<Rightarrow> nat \<Rightarrow> error + counts" where
  "count_loop to_datetime target_date [] before_count after_count =
     Inr \<lparr>before = before_count, after = after_count\<rparr>"
| "count_loop to_datetime target_date (citation # citations) before_count after_count =
     (case citation ''creation'' of
        None \<Rightarrow> Inl KeyError
      | Some v \<Rightarrow>
          (case standardize_date v of
             Inl e \<Rightarrow> Inl e
           | Inr None \<Rightarrow> count_loop to_datetime target_date citations before_count after_count
           | Inr (Some s) \<Rightarrow>
               (case to_datetime s of
                  Inl e \<Rightarrow> Inl e
                | Inr creation_date \<Rightarrow>
                    if creation_date < target_date
                    then count_loop to_datetime target_date citations (before_count + 1) after_count
                    else if creation_date > target_date
                    then count_loop to_datetime target_date citations before_count (after_count + 1)
                    else count_loop to_datetime target_date citations before_count after_count)))"

definition count_citations ::
  "'d::linorder parser \<Rightarrow> citation list \<Rightarrow> 'd pydate \<Rightarrow> error + counts" where
  "count_citations to_datetime citations target_date =
     count_loop to_datetime (pd_to_datetime_obj target_date) citations 0 0"

text \<open>
  The normalized creation date of one entry, as the loop body computes it (the lines from
  \<^verbatim>\<open>standardize_date(citation['creation'])\<close> to \<^verbatim>\<open>pd.to_datetime(creation_date)\<close>):
  \<open>Inr None\<close> is unknown, \<open>Inr (Some ts)\<close> is a known timestamp, \<open>Inl e\<close> is an
  exception.
\<close>

definition normalized_creation :: "'d parser \<Rightarrow> citation \<Rightarrow> error + ('d \<times> nat) option" where
  "normalized_creation to_datetime citation =
     (case citation ''creation'' of
        None \<Rightarrow> Inl KeyError
      | Some v \<Rightarrow>
          (case standardize_date v of
             Inl e \<Rightarrow> Inl e
           | Inr None \<Rightarrow> Inr None
           | Inr (Some s) \<Rightarrow>
               (case to_datetime s of
                  Inl e \<Rightarrow> Inl e
                | Inr creation_date \<Rightarrow> Inr (Some creation_date))))"

text \<open>The entry's normalized creation date is computed without an exception.\<close>

definition normalizes :: "'d parser \<Rightarrow> citation \<Rightarrow> bool" where
  "normalizes to_datetime citation =
     (case normalized_creation to_datetime citation of Inl e \<Rightarrow> False | Inr n \<Rightarrow> True)"

text \<open>The normalized creation date is unknown.\<close>

definition unknown_date :: "'d parser \<Rightarrow> citation \<Rightarrow> bool" where
  "unknown_date to_datetime citation =
     (case normalized_creation to_datetime citation of Inr None \<Rightarrow> True | _ \<Rightarrow> False)"

text \<open>The normalized creation date is known and strictly earlier than the target.\<close>

definition known_before :: "'d::linorder parser \<Rightarrow> 'd \<times> nat \<Rightarrow> citation \<Rightarrow> bool" where
  "known_before to_datetime target citation =
     (case normalized_creation to_datetime citation of
        Inr (Some ts) \<Rightarrow> ts < target
      | _ \<Rightarrow> False)"

text \<open>The normalized creation date is known and strictly later than the target.\<close>

definition known_after :: "'d::linorder parser \<Rightarrow> 'd \<times> nat \<Rightarrow> citation \<Rightarrow> bool" where
  "known_after to_datetime target citation =
     (case normalized_creation to_datetime citation of
        Inr (Some ts) \<Rightarrow> target < ts
      | _ \<Rightarrow> False)"

text \<open>The normalized creation date is known and equal to the target.\<close>

definition known_equal :: "'d parser \<Rightarrow> 'd \<times> nat \<Rightarrow> citation \<Rightarrow> bool" where
  "known_equal to_datetime target citation =
     (case normalized_creation to_datetime citation of
        Inr (Some ts) \<Rightarrow> ts = target
      | _ \<Rightarrow> False)"

section \<open>The second citation counter\<close>

text \<open>
  \<^verbatim>\<open>
  def process_citation_counts(citations, retraction_date):
      try:
          if isinstance(retraction_date, datetime):
              retraction_date = retraction_date.date()
          creation_dates = np.array(
              [datetime.strptime(citation['creation'], '%Y-%m-%d').date() for citation in citations])
          pre_counts = np.sum(creation_dates < retraction_date)
          post_counts = np.sum(creation_dates >= retraction_date)
          return pre_counts, post_counts
      except Exception as e:
          print("ERROR:", e)
          return np.NaN, np.NaN
  \<close>
  The list comprehension stops at the first entry that raises: \<^verbatim>\<open>KeyError\<close> for a
  missing key, \<^verbatim>\<open>TypeError\<close> when the value is not a string, or whatever
  \<^verbatim>\<open>strptime\<close> raises. \<^verbatim>\<open>.date()\<close> keeps the calendar date of a datetime.
\<close>

fun date_of :: "'d \<times> nat \<Rightarrow> 'd" where
  "date_of (d, t) = d"








section \<open>Robust tabular reader\<close>

text \<open>
  \<^verbatim>\<open>
  def read_csv_robust(file_path, sep=",", num_bytes=10000):
      encoding_detected = detect_encoding(file_path, num_bytes)
      try:
          df = pd.read_csv(file_path, encoding=encoding_detected, on_bad_lines='skip', sep=sep)
          return df
      except Exception as e:
          try:
              df = pd.read_csv(file_path, encoding='utf-8', on_bad_lines='skip', sep=sep)
              return df
          except Exception as e:
              try:
                  df = pd.read_csv(file_path, encoding='ISO-8859-1', on_bad_lines='skip', sep=sep)
                  return df
              except Exception as e:
                  return None
  \<close>
  (the \<^verbatim>\<open>print\<close> calls are left out). The file and the separator are fixed during a
  call, so \<^verbatim>\<open>pd.read_csv\<close> is a function \<open>read_csv\<close> of the encoding alone, which raises
  or returns a table; \<^verbatim>\<open>chardet\<close> may detect no encoding, so an encoding is a
  \<open>string option\<close>. \<open>detect_encoding\<close> is the outcome of the nested function of that
  name, which is called outside every \<^verbatim>\<open>try\<close>. The state threaded through the function
  is the list of encodings \<^verbatim>\<open>pd.read_csv\<close> has been called with, oldest first.
\<close>

record 'tbl read_result =
  attempts :: "string option list"
  table :: "'tbl option"

definition read_csv_robust ::
  "(error + string option) \<Rightarrow> (string option \<Rightarrow> error + 'tbl) \<Rightarrow> error + 'tbl read_result" where
  "read_csv_robust detect_encoding read_csv =
     (case detect_encoding of
        Inl e \<Rightarrow> Inl e
      | Inr encoding_detected \<Rightarrow>
          (let calls = [encoding_detected] in
           case read_csv encoding_detected of
             Inr df \<Rightarrow> Inr \<lparr>attempts = calls, table = Some df\<rparr>
           | Inl e \<Rightarrow>
               (let calls = calls @ [Some ''utf-8''] in
                case read_csv (Some ''utf-8'') of
                  Inr df \<Rightarrow> Inr \<lparr>attempts = calls, table = Some df\<rparr>
                | Inl e \<Rightarrow>
                    (let calls = calls @ [Some ''ISO-8859-1''] in
                     case read_csv (Some ''ISO-8859-1'') of
                       Inr df \<Rightarrow> Inr \<lparr>attempts = calls, table = Some df\<rparr>
                     | Inl e \<Rightarrow> Inr \<lparr>attempts = calls, table = None\<rparr>))))"

text \<open>The attempt with this encoding fails.\<close>

definition read_fails :: "(string option \<Rightarrow> error + 'tbl) \<Rightarrow> string option \<Rightarrow> bool" where
  "read_fails read_csv enc = (case read_csv enc of Inl e \<Rightarrow> True | Inr df \<Rightarrow> False)"

section \<open>Citation fetcher\<close>

text \<open>
  \<^verbatim>\<open>
  def fetch_citations(doi):
      url = f"https://opencitations.net/index/api/v2/citations/doi:{doi}"
      headers = {"Accept": "application/json"}
      try:
          response = requests.get(url, headers=headers)
          if response.status_code == 200:
              return response.json()
          else:
              return []
      except Exception as e:
          return []
  \<close>
  (the \<^verbatim>\<open>logging\<close> calls are left out). \<^verbatim>\<open>requests.get\<close> is a parameter: it raises or
  returns a response. A response has a status code and the outcome of its
  \<^verbatim>\<open>json()\<close> method, which raises or returns the parsed list.
\<close>

record 'c response =
  status_code :: int
  json :: "error + 'c list"

text \<open>The body of the \<^verbatim>\<open>try\<close> block.\<close>

definition fetch_citations_body ::
  "(string \<Rightarrow> (string \<times> string) list \<Rightarrow> error + 'c response) \<Rightarrow> string \<Rightarrow> error + 'c list" where
  "fetch_citations_body requests_get doi =
     (let url = ''https://opencitations.net/index/api/v2/citations/doi:'' @ doi;
          headers = [(''Accept'', ''application/json'')]
      in case requests_get url headers of
           Inl e \<Rightarrow> Inl e
         | Inr response \<Rightarrow>
             if status_code response = 200 then json response else Inr [])"

definition fetch_citations ::
  "(string \<Rightarrow> (string \<times> string) list \<Rightarrow> error + 'c response) \<Rightarrow> string \<Rightarrow> error + 'c list" where
  "fetch_citations requests_get doi =
     (case fetch_citations_body requests_get doi of
        Inr citations \<Rightarrow> Inr citations
      | Inl e \<Rightarrow> Inr [])"

text \<open>The request that \<^verbatim>\<open>fetch_citations\<close> sends for an identifier.\<close>

definition citations_request ::
  "(string \<Rightarrow> (string \<times> string) list \<Rightarrow> error + 'c response) \<Rightarrow> string \<Rightarrow> error + 'c response" where
  "citations_request requests_get doi =
     requests_get (''https://opencitations.net/index/api/v2/citations/doi:'' @ doi)
       [(''Accept'', ''application/json'')]"

section \<open>The cleaning stage of the pipeline\<close>

text \<open>
  \<^verbatim>\<open>
  df['original'] = pd.to_datetime(df['OriginalPaperDate'], format='mixed', errors='coerce').dt.date
  df['retract'] = pd.to_datetime(df['RetractionDate'], format='mixed', errors='coerce').dt.date
  df['correction_time'] = (pd.to_datetime(df['retract']) - pd.to_datetime(df['original'])).dt.days
  df = df.dropna(subset=['correction_time'])
  df = df.dropna(subset=['OriginalPaperDOI'])
  \<close>
  A row of the table has the three columns the stage reads. The coercing conversion of one
  cell, \<^verbatim>\<open>pd.to_datetime(_, format='mixed', errors='coerce')\<close> followed by
  \<^verbatim>\<open>.date\<close>, is the parameter \<open>coerce\<close>: it gives a calendar date, numbered in days,
  or \<open>None\<close> for \<^verbatim>\<open>NaT\<close>. The difference of two dates is missing when either is.
\<close>

record row =
  OriginalPaperDate :: pyval
  RetractionDate :: pyval
  OriginalPaperDOI :: pyval

record dated_row = row +
  original :: "int option"
  retract :: "int option"
  correction_time :: "int option"

definition days_between :: "int option \<Rightarrow> int option \<Rightarrow> int option" where
  "days_between a b =
     (case a of
        None \<Rightarrow> None
      | Some x \<Rightarrow> (case b of None \<Rightarrow> None | Some y \<Rightarrow> Some (x - y)))"

definition fix_date_columns :: "(pyval \<Rightarrow> int option) \<Rightarrow> row \<Rightarrow> dated_row" where
  "fix_date_columns coerce r =
     (let original = coerce (OriginalPaperDate r);
          retract = coerce (RetractionDate r);
          correction_time = days_between retract original
      in row.extend r
           (dated_row.fields original retract correction_time))"

definition dropna_correction_time :: "dated_row list \<Rightarrow> dated_row list" where
  "dropna_correction_time df = filter (\<lambda>r. correction_time r \<noteq> None) df"

definition dropna_doi :: "dated_row list \<Rightarrow> dated_row list" where
  "dropna_doi df = filter (\<lambda>r. \<not> py_isna (OriginalPaperDOI r)) df"

definition cleaning :: "(pyval \<Rightarrow> int option) \<Rightarrow> row list \<Rightarrow> dated_row list" where
  "cleaning coerce df =
     dropna_doi (dropna_correction_time (map (fix_date_columns coerce) df))"

text \<open>The correction time of an input row is computable: both of its dates are.\<close>

definition computable :: "(pyval \<Rightarrow> int option) \<Rightarrow> row \<Rightarrow> bool" where
  "computable coerce r =
     (coerce (RetractionDate r) \<noteq> None \<and> coerce (OriginalPaperDate r) \<noteq> None)"

section \<open>A reference parser for ISO calendar dates\<close>

text \<open>
  The theorems below hold for every parser. To evaluate the functions on concrete entries
  a parser is needed, and this one reads the zero-padded form \<^verbatim>\<open>YYYY-MM-DD\<close> of a
  calendar date: four, two and two decimal digits that name a day of the proleptic Gregorian
  calendar. On such a string \<^verbatim>\<open>pd.to_datetime\<close> and
  \<^verbatim>\<open>datetime.strptime(_, '%Y-%m-%d')\<close> both return midnight of that day; on a string
  of three digit groups that names no day (month 13, 30 February) both raise
  \<^verbatim>\<open>ValueError\<close>. Every other string is rejected here, although the libraries read
  further formats. A date is numbered as \<^verbatim>\<open>date.toordinal\<close> numbers it: 1 is
  1 January of year 1.
\<close>

definition digit_of :: "char \<Rightarrow> int option" where
  "digit_of c =
     (let n = of_char c :: nat in
      if 48 \<le> n \<and> n \<le> 57 then Some (int n - 48) else None)"

fun digits_value :: "string \<Rightarrow> int \<Rightarrow> int option" where
  "digits_value [] acc = Some acc"
| "digits_value (c # cs) acc =
     (case digit_of c of
        None \<Rightarrow> None
      | Some k \<Rightarrow> digits_value cs (10 * acc + k))"

definition is_leap :: "int \<Rightarrow> bool" where
  "is_leap y = (y mod 4 = 0 \<and> (y mod 100 \<noteq> 0 \<or> y mod 400 = 0))"

definition days_in_month :: "int \<Rightarrow> int \<Rightarrow> int" where
  "days_in_month y m =
     (if m = 2 then (if is_leap y then 29 else 28)
      else if m = 4 \<or> m = 6 \<or> m = 9 \<or> m = 11 then 30
      else 31)"

definition days_before_year :: "int \<Rightarrow> int" where
  "days_before_year y = (y - 1) * 365 + (y - 1) div 4 - (y - 1) div 100 + (y - 1) div 400"

definition days_before_month :: "int \<Rightarrow> int \<Rightarrow> int" where
  "days_before_month y m = sum_list (map (days_in_month y) [1 .. m - 1])"

definition ymd2ord :: "int \<Rightarrow> int \<Rightarrow> int \<Rightarrow> int" where
  "ymd2ord y m d = days_before_year y + days_before_month y m + d"

definition iso_date :: "int parser" where
  "iso_date s =
     (case py_split CHR ''-'' s of
        [ys, ms, ds] \<Rightarrow>
          if length ys = 4 \<and> length ms = 2 \<and> length ds = 2 then
            (case (digits_value ys 0, digits_value ms 0, digits_value ds 0) of
               (Some y, Some m, Some d) \<Rightarrow>
                 if 1 \<le> y \<and> 1 \<le> m \<and> m \<le> 12 \<and> 1 \<le> d \<and> d \<le> days_in_month y m
                 then Inr (ymd2ord y m d, 0)
                 else Inl ValueError
             | _ \<Rightarrow> Inl ValueError)
          else Inl ValueError
      | _ \<Rightarrow> Inl ValueError)"

section \<open>Concrete collaborators\<close>

text \<open>
  Instances of the parameters, for evaluating the functions on concrete inputs: a file that
  decodes as UTF-8 only and a file that no encoding reads; a citation service that is
  unreachable, one that answers 404, and one that answers 200 with one citation; and the
  coercing date conversion of a cell that holds an ISO calendar date.
\<close>

definition utf8_only :: "string option \<Rightarrow> error + string list" where
  "utf8_only enc = (if enc = Some ''utf-8'' then Inr [''a,b'', ''1,2''] else Inl UnicodeError)"

definition unreadable :: "string option \<Rightarrow> error + string list" where
  "unreadable enc = Inl ParserError"

definition server_down :: "string \<Rightarrow> (string \<times> string) list \<Rightarrow> error + citation response" where
  "server_down url headers = Inl ConnectionError"

definition not_found :: "string \<Rightarrow> (string \<times> string) list \<Rightarrow> error + citation response" where
  "not_found url headers = Inr \<lparr>status_code = 404, json = Inl ValueError\<rparr>"

definition one_citation :: "string \<Rightarrow> (string \<times> string) list \<Rightarrow> error + citation response" where
  "one_citation url headers =
     Inr \<lparr>status_code = 200, json = Inr [[''creation'' \<mapsto> PyStr ''2019-06-01'']]\<rparr>"

definition coerce_iso :: "pyval \<Rightarrow> int option" where
  "coerce_iso v =
     (case v of
        PyStr s \<Rightarrow> (case iso_date s of Inl e \<Rightarrow> None | Inr dt \<Rightarrow> Some (date_of dt))
      | _ \<Rightarrow> None)"

section \<open>Properties of the date normalizer\<close>

lemma py_split_not_Nil: "py_split sep s \<noteq> []"
  by (induction s) (auto split: list.splits)

text \<open>The number of components is one more than the number of separators.\<close>

lemma length_py_split: "length (py_split sep s) = Suc (count_list s sep)"
proof (induction s)
  case Nil
  show ?case by simp
next
  case (Cons c cs)
  then show ?case
    using py_split_not_Nil [of sep cs] by (auto split: list.splits)
qed

text \<open>
  Claim C2. A missing value (\<^verbatim>\<open>None\<close>, NaN) and the empty string normalize to unknown.
  A string of exactly one \<^verbatim>\<open>-\<close>-separated component normalizes to unknown, a string of
  exactly two components to the string with \<^verbatim>\<open>-01\<close> appended, a string of exactly three
  components to itself, and a string of any other number of components to unknown.
\<close>

theorem standardize_date_components:
  "standardize_date PyNone = Inr None \<and>
   standardize_date PyNaN = Inr None \<and>
   standardize_date (PyStr []) = Inr None \<and>
   (length (py_split CHR ''-'' s) = 1 \<longrightarrow> standardize_date (PyStr s) = Inr None) \<and>
   (length (py_split CHR ''-'' s) = 2 \<longrightarrow> standardize_date (PyStr s) = Inr (Some (s @ ''-01''))) \<and>
   (length (py_split CHR ''-'' s) = 3 \<longrightarrow> standardize_date (PyStr s) = Inr (Some s)) \<and>
   (length (py_split CHR ''-'' s) \<notin> {1, 2, 3} \<longrightarrow> standardize_date (PyStr s) = Inr None)"
  by (simp add: Let_def)

text \<open>One string for each number of components: one, two, three and four.\<close>

theorem standardize_date_components_witness:
  "length (py_split CHR ''-'' ''2020'') = 1 \<and>
   standardize_date (PyStr ''2020'') = Inr None \<and>
   length (py_split CHR ''-'' ''2021-05'') = 2 \<and>
   standardize_date (PyStr ''2021-05'') = Inr (Some ''2021-05-01'') \<and>
   length (py_split CHR ''-'' ''2021-05-02'') = 3 \<and>
   standardize_date (PyStr ''2021-05-02'') = Inr (Some ''2021-05-02'') \<and>
   length (py_split CHR ''-'' ''2021-05-02-07'') \<notin> {1, 2, 3} \<and>
   standardize_date (PyStr ''2021-05-02-07'') = Inr None"
  using standardize_date_components [of "''2020''"]
    standardize_date_components [of "''2021-05''"]
    standardize_date_components [of "''2021-05-02''"]
    standardize_date_components [of "''2021-05-02-07''"]
  by simp

text \<open>
  Claim C6, as amended. \<^verbatim>\<open>standardize_date\<close> returns without an exception on every
  missing value and on every string, and raises \<^verbatim>\<open>AttributeError\<close> on a number. It
  returns unknown exactly on a missing value and on a string whose number of components is
  neither two nor three; a string of two or three components is passed on, whatever the
  components are.
\<close>

theorem standardize_date_total_on_text:
  "(case v of
      PyInt n \<Rightarrow> standardize_date v = Inl AttributeError
    | _ \<Rightarrow> \<exists>r. standardize_date v = Inr r) \<and>
   (standardize_date v = Inr None \<longleftrightarrow>
      py_isna v \<or>
      (\<exists>s. v = PyStr s \<and> length (py_split CHR ''-'' s) \<noteq> 2
                       \<and> length (py_split CHR ''-'' s) \<noteq> 3))"
  by (cases v) (auto simp: Let_def)

text \<open>
  Claim C6 as it was stated fails: a number makes \<^verbatim>\<open>standardize_date\<close> raise, and a
  malformed string of three components (month 13, day 45) is returned as it is, not as
  unknown.
\<close>

theorem standardize_date_raises_counterexample:
  "standardize_date (PyInt 2020) = Inl AttributeError \<and>
   standardize_date (PyStr ''2021-13-45'') = Inr (Some ''2021-13-45'')"
  by simp

section \<open>Properties of the citation partitioner\<close>

text \<open>One step of the loop, in terms of the entry's normalized creation date.\<close>

lemma count_loop_Cons:
  "count_loop td t (c # cs) b a =
     (case normalized_creation td c of
        Inl e \<Rightarrow> Inl e
      | Inr None \<Rightarrow> count_loop td t cs b a
      | Inr (Some ts) \<Rightarrow>
          if ts < t then count_loop td t cs (b + 1) a
          else if t < ts then count_loop td t cs b (a + 1)
          else count_loop td t cs b a)"
  by (simp add: normalized_creation_def split: option.split sum.split)

lemma classes_unknown:
  assumes "normalized_creation td c = Inr None"
  shows "\<not> known_before td t c" and "\<not> known_after td t c"
    and "unknown_date td c" and "\<not> known_equal td t c"
  using assms
  by (simp_all add: known_before_def known_after_def unknown_date_def known_equal_def)

lemma classes_known:
  assumes "normalized_creation td c = Inr (Some ts)"
  shows "known_before td t c = (ts < t)" and "known_after td t c = (t < ts)"
    and "\<not> unknown_date td c" and "known_equal td t c = (ts = t)"
  using assms
  by (simp_all add: known_before_def known_after_def unknown_date_def known_equal_def)

text \<open>When every entry normalizes, the loop adds to each counter the number of its entries.\<close>

lemma count_loop_ok:
  "\<forall>c\<in>set cs. normalizes td c \<Longrightarrow>
   count_loop td t cs b a =
     Inr \<lparr>before = b + length (filter (known_before td t) cs),
          after = a + length (filter (known_after td t) cs)\<rparr>"
proof (induction cs arbitrary: b a)
  case Nil
  show ?case by simp
next
  case (Cons c cs)
  then have ih: "\<And>b a. count_loop td t cs b a =
       Inr \<lparr>before = b + length (filter (known_before td t) cs),
            after = a + length (filter (known_after td t) cs)\<rparr>"
    by simp
  from Cons.prems obtain n where n: "normalized_creation td c = Inr n"
    by (auto simp: normalizes_def split: sum.splits)
  show ?case
  proof (cases n)
    case None
    with n ih show ?thesis
      by (simp add: count_loop_Cons classes_unknown del: count_loop.simps)
  next
    case (Some ts)
    have "ts < t \<Longrightarrow> \<not> t < ts" by (rule less_not_sym)
    with Some n ih show ?thesis
      by (simp add: count_loop_Cons classes_known del: count_loop.simps)
  qed
qed

text \<open>One entry that does not normalize makes the whole loop raise.\<close>

lemma count_loop_raises:
  "c \<in> set cs \<Longrightarrow> \<not> normalizes td c \<Longrightarrow> \<exists>e. count_loop td t cs b a = Inl e"
proof (induction cs arbitrary: b a)
  case Nil
  then show ?case by simp
next
  case (Cons x xs)
  show ?case
  proof (cases "normalized_creation td x")
    case (Inl e)
    then show ?thesis by (simp add: count_loop_Cons del: count_loop.simps)
  next
    case (Inr n)
    then have "normalizes td x" by (simp add: normalizes_def)
    with Cons.prems have "c \<in> set xs" by auto
    with Cons have ih: "\<And>b a. \<exists>e. count_loop td t xs b a = Inl e" by blast
    show ?thesis
    proof (cases n)
      case None
      with Inr ih show ?thesis by (simp add: count_loop_Cons del: count_loop.simps)
    next
      case (Some ts)
      with Inr ih show ?thesis by (simp add: count_loop_Cons del: count_loop.simps)
    qed
  qed
qed


text \<open>\<^verbatim>\<open>count_citations\<close> returns exactly when every entry normalizes, and then returns the two counts.\<close>

lemma count_citations_Inr_iff:
  "(count_citations td cs target = Inr r) \<longleftrightarrow>
     (\<forall>c\<in>set cs. normalizes td c) \<and>
     r = \<lparr>before = length (filter (known_before td (pd_to_datetime_obj target)) cs),
          after = length (filter (known_after td (pd_to_datetime_obj target)) cs)\<rparr>"
proof (cases "\<forall>c\<in>set cs. normalizes td c")
  case True
  then show ?thesis
    using count_loop_ok [of cs td "pd_to_datetime_obj target" 0 0]
    by (auto simp: count_citations_def)
next
  case False
  then obtain c where "c \<in> set cs" "\<not> normalizes td c" by blast
  then obtain e where "count_loop td (pd_to_datetime_obj target) cs 0 0 = Inl e"
    using count_loop_raises by blast
  with False show ?thesis by (simp add: count_citations_def)
qed







text \<open>
  Claim C5. \<^verbatim>\<open>count_citations\<close> is order-independent: for every sequence of entries,
  every permutation of it and every target date, the permuted sequence returns the counts
  \<open>r\<close> exactly when the original sequence does. (So both return the same counts, or both
  raise.)
\<close>

theorem count_citations_order_independent:
  assumes "mset shuffled = mset citations"
  shows "(count_citations to_datetime shuffled target_date = Inr r) \<longleftrightarrow>
         (count_citations to_datetime citations target_date = Inr r)"
proof -
  have s: "set shuffled = set citations"
    using assms by (rule mset_eq_setD)
  have l: "length (filter P shuffled) = length (filter P citations)" for P :: "citation \<Rightarrow> bool"
  proof -
    have "mset (filter P shuffled) = mset (filter P citations)"
      using assms by (simp only: mset_filter)
    then show ?thesis by (rule mset_eq_length)
  qed
  show ?thesis
    by (simp only: count_citations_Inr_iff s l)
qed

theorem count_citations_order_independent_witness:
  "mset [[''creation'' \<mapsto> PyStr ''2021-05-02''], [''creation'' \<mapsto> PyStr ''2020'']]
     = mset [[''creation'' \<mapsto> PyStr ''2020''], [''creation'' \<mapsto> PyStr ''2021-05-02'']] \<and>
   count_citations iso_date
     [[''creation'' \<mapsto> PyStr ''2021-05-02''], [''creation'' \<mapsto> PyStr ''2020'']]
     (PyDate (ymd2ord 2021 1 1)) = Inr \<lparr>before = 0, after = 1\<rparr> \<and>
   count_citations iso_date
     [[''creation'' \<mapsto> PyStr ''2020''], [''creation'' \<mapsto> PyStr ''2021-05-02'']]
     (PyDate (ymd2ord 2021 1 1)) = Inr \<lparr>before = 0, after = 1\<rparr>"
proof -
  have m: "mset [[''creation'' \<mapsto> PyStr ''2021-05-02''], [''creation'' \<mapsto> PyStr ''2020'']]
     = mset [[''creation'' \<mapsto> PyStr ''2020''], [''creation'' \<mapsto> PyStr ''2021-05-02'']]"
    by (simp add: add_mset_commute)
  have c: "count_citations iso_date
     [[''creation'' \<mapsto> PyStr ''2020''], [''creation'' \<mapsto> PyStr ''2021-05-02'']]
     (PyDate (ymd2ord 2021 1 1)) = Inr \<lparr>before = 0, after = 1\<rparr>"
    by code_simp
  from count_citations_order_independent [OF m, of iso_date "PyDate (ymd2ord 2021 1 1)"
         "\<lparr>before = 0, after = 1\<rparr>"] m c
  show ?thesis by simp
qed

section \<open>Properties of the second citation counter\<close>




section \<open>The two counters compared\<close>






section \<open>Properties of the robust tabular reader\<close>

text \<open>
  Claim C7. After the encoding is detected, \<^verbatim>\<open>read_csv_robust\<close> returns, and its
  attempts are the detected encoding, then UTF-8, then ISO-8859-1, in this order and without
  gaps. The first attempt is always made; the UTF-8 attempt is made exactly when the first
  one failed; the ISO-8859-1 attempt is made exactly when the first two failed. The result
  is no table exactly when all three attempts failed; otherwise it is the whole table read
  by the last attempt.
\<close>

theorem read_csv_robust_fallback_chain:
  "\<exists>r. read_csv_robust (Inr enc) read_csv = Inr r \<and>
     (attempts r = [enc] \<or>
      attempts r = [enc, Some ''utf-8''] \<or>
      attempts r = [enc, Some ''utf-8'', Some ''ISO-8859-1'']) \<and>
     (1 < length (attempts r) \<longleftrightarrow> read_fails read_csv enc) \<and>
     (2 < length (attempts r) \<longleftrightarrow>
        read_fails read_csv enc \<and> read_fails read_csv (Some ''utf-8'')) \<and>
     (table r = None \<longleftrightarrow>
        read_fails read_csv enc \<and> read_fails read_csv (Some ''utf-8'') \<and>
        read_fails read_csv (Some ''ISO-8859-1'')) \<and>
     (\<forall>df. table r = Some df \<longrightarrow> read_csv (last (attempts r)) = Inr df)"
  by (auto simp: read_csv_robust_def read_fails_def Let_def split: sum.splits)

text \<open>
  A file that the detected encoding \<^verbatim>\<open>ascii\<close> does not read and UTF-8 does, and a file
  that nothing reads.
\<close>

theorem read_csv_robust_fallback_chain_witness:
  "read_fails utf8_only (Some ''ascii'') \<and>
   \<not> read_fails utf8_only (Some ''utf-8'') \<and>
   read_csv_robust (Inr (Some ''ascii'')) utf8_only
     = Inr \<lparr>attempts = [Some ''ascii'', Some ''utf-8''], table = Some [''a,b'', ''1,2'']\<rparr> \<and>
   read_fails unreadable (Some ''ascii'') \<and>
   read_fails unreadable (Some ''utf-8'') \<and>
   read_fails unreadable (Some ''ISO-8859-1'') \<and>
   read_csv_robust (Inr (Some ''ascii'')) unreadable
     = Inr \<lparr>attempts = [Some ''ascii'', Some ''utf-8'', Some ''ISO-8859-1''], table = None\<rparr>"
  using read_csv_robust_fallback_chain [of "Some ''ascii''" utf8_only]
    read_csv_robust_fallback_chain [of "Some ''ascii''" unreadable]
  by (simp add: read_csv_robust_def read_fails_def utf8_only_def unreadable_def)

section \<open>Properties of the citation fetcher\<close>

text \<open>
  Claim C8. For every identifier, \<^verbatim>\<open>fetch_citations\<close> returns and never raises. It
  returns the empty list whenever the request raises and whenever the status of the response
  is not 200. With status 200 it returns the parsed list of the response; and a non-empty
  result is always the parsed list of a response with status 200. (A response whose body does
  not parse gives the empty list as well.)
\<close>

theorem fetch_citations_best_effort:
  "(\<exists>cs. fetch_citations requests_get doi = Inr cs) \<and>
   (\<forall>e. citations_request requests_get doi = Inl e \<longrightarrow>
        fetch_citations requests_get doi = Inr []) \<and>
   (\<forall>response. citations_request requests_get doi = Inr response \<and> status_code response \<noteq> 200 \<longrightarrow>
        fetch_citations requests_get doi = Inr []) \<and>
   (\<forall>response cs. citations_request requests_get doi = Inr response \<and> status_code response = 200
        \<and> json response = Inr cs \<longrightarrow>
        fetch_citations requests_get doi = Inr cs) \<and>
   (\<forall>cs. fetch_citations requests_get doi = Inr cs \<and> cs \<noteq> [] \<longrightarrow>
        (\<exists>response. citations_request requests_get doi = Inr response \<and>
           status_code response = 200 \<and> json response = Inr cs)) \<and>
   (\<forall>response e. citations_request requests_get doi = Inr response \<and> json response = Inl e \<longrightarrow>
        fetch_citations requests_get doi = Inr [])"
  by (auto simp: fetch_citations_def fetch_citations_body_def citations_request_def Let_def
           split: sum.splits if_splits)

text \<open>An unreachable service, a 404 response, and a 200 response with one citation.\<close>

theorem fetch_citations_best_effort_witness:
  "citations_request server_down ''10.1/x'' = Inl ConnectionError \<and>
   fetch_citations server_down ''10.1/x'' = Inr [] \<and>
   citations_request not_found ''10.1/x'' = Inr \<lparr>status_code = 404, json = Inl ValueError\<rparr> \<and>
   fetch_citations not_found ''10.1/x'' = Inr [] \<and>
   citations_request one_citation ''10.1/x'' =
     Inr \<lparr>status_code = 200, json = Inr [[''creation'' \<mapsto> PyStr ''2019-06-01'']]\<rparr> \<and>
   fetch_citations one_citation ''10.1/x'' = Inr [[''creation'' \<mapsto> PyStr ''2019-06-01'']]"
proof -
  have r1: "citations_request server_down ''10.1/x'' = Inl ConnectionError"
    by (simp add: citations_request_def server_down_def)
  have r2: "citations_request not_found ''10.1/x'' =
              Inr \<lparr>status_code = 404, json = Inl ValueError\<rparr>"
    by (simp add: citations_request_def not_found_def)
  have r3: "citations_request one_citation ''10.1/x'' =
              Inr \<lparr>status_code = 200, json = Inr [[''creation'' \<mapsto> PyStr ''2019-06-01'']]\<rparr>"
    by (simp add: citations_request_def one_citation_def)
  have f1: "fetch_citations server_down ''10.1/x'' = Inr []"
    by (rule fetch_citations_best_effort
          [THEN conjunct2, THEN conjunct1, rule_format, OF r1])
  have "status_code \<lparr>status_code = 404, json = (Inl ValueError :: error + citation list)\<rparr> \<noteq> 200"
    by simp
  with r2 have f2: "fetch_citations not_found ''10.1/x'' = Inr []"
    by (intro fetch_citations_best_effort
          [THEN conjunct2, THEN conjunct2, THEN conjunct1, rule_format] conjI)
  have "status_code \<lparr>status_code = 200,
          json = (Inr [[''creation'' \<mapsto> PyStr ''2019-06-01'']] :: error + citation list)\<rparr> = 200"
    and "json \<lparr>status_code = 200,
          json = (Inr [[''creation'' \<mapsto> PyStr ''2019-06-01'']] :: error + citation list)\<rparr>
         = Inr [[''creation'' \<mapsto> PyStr ''2019-06-01'']]"
    by simp_all
  with r3 have f3: "fetch_citations one_citation ''10.1/x'' =
                      Inr [[''creation'' \<mapsto> PyStr ''2019-06-01'']]"
    by (intro fetch_citations_best_effort
          [THEN conjunct2, THEN conjunct2, THEN conjunct2, THEN conjunct1, rule_format] conjI)
  from r1 f1 r2 f2 r3 f3 show ?thesis by (intro conjI)
qed

section \<open>Properties of the cleaning stage\<close>

lemma truncate_fix_date_columns: "row.truncate (fix_date_columns coerce r) = r"
  by (simp add: fix_date_columns_def row.truncate_def row.extend_def Let_def)

lemma correction_time_fix_date_columns:
  "(correction_time (fix_date_columns coerce r) \<noteq> None) = computable coerce r"
  by (simp add: fix_date_columns_def row.extend_def dated_row.fields_def Let_def
       computable_def days_between_def split: option.splits)

lemma doi_fix_date_columns: "OriginalPaperDOI (fix_date_columns coerce r) = OriginalPaperDOI r"
  by (simp add: fix_date_columns_def row.extend_def Let_def)

text \<open>
  Claim C9. The rows that leave the cleaning stage are, in their input order, exactly the
  input rows whose correction time is computable and whose \<^verbatim>\<open>OriginalPaperDOI\<close> is not
  missing: every row with a non-computable correction time and every row with a missing
  identifier is absent, and every other row is retained.
\<close>

theorem cleaning_keeps_exactly:
  "map row.truncate (cleaning coerce df) =
     filter (\<lambda>r. computable coerce r \<and> \<not> py_isna (OriginalPaperDOI r)) df"
proof -
  let ?f = "fix_date_columns coerce"
  let ?P = "\<lambda>r. \<not> py_isna (OriginalPaperDOI r)"
  let ?Q = "\<lambda>r. correction_time r \<noteq> None"
  have P: "?P (?f r) = (\<not> py_isna (OriginalPaperDOI r))" for r
    by (simp only: doi_fix_date_columns)
  have Q: "?Q (?f r) = computable coerce r" for r
    by (rule correction_time_fix_date_columns)
  have t: "row.truncate (?f r) = r" for r
    by (rule truncate_fix_date_columns)
  have "map row.truncate (filter ?P (filter ?Q (map ?f xs))) =
        filter (\<lambda>r. computable coerce r \<and> \<not> py_isna (OriginalPaperDOI r)) xs" for xs
  proof (induction xs)
    case Nil
    show ?case by simp
  next
    case (Cons x xs)
    show ?case
    proof (cases "computable coerce x \<and> \<not> py_isna (OriginalPaperDOI x)")
      case True
      then have "?Q (?f x)" and "?P (?f x)" by (simp_all add: P Q del: not_None_eq)
      then have "filter ?P (filter ?Q (map ?f (x # xs))) = ?f x # filter ?P (filter ?Q (map ?f xs))"
        by (simp del: not_None_eq)
      with True Cons.IH t show ?thesis by (simp del: not_None_eq)
    next
      case False
      then have "\<not> (?Q (?f x) \<and> ?P (?f x))" by (simp add: P Q del: not_None_eq)
      then have "filter ?P (filter ?Q (map ?f (x # xs))) = filter ?P (filter ?Q (map ?f xs))"
        by (auto simp del: not_None_eq)
      with False Cons.IH show ?thesis by (auto simp del: not_None_eq)
    qed
  qed
  then show ?thesis
    by (simp only: cleaning_def dropna_doi_def dropna_correction_time_def)
qed

text \<open>
  Three rows: the row of the end-to-end scenario of the specification, whose correction time
  is 531 days; the same row without an identifier; and a row without an original date.
\<close>

theorem cleaning_keeps_exactly_witness:
  "map row.truncate
     (cleaning coerce_iso
        [\<lparr>OriginalPaperDate = PyStr ''2019-01-01'', RetractionDate = PyStr ''2020-06-15'',
          OriginalPaperDOI = PyStr ''10.1/x''\<rparr>,
         \<lparr>OriginalPaperDate = PyStr ''2019-01-01'', RetractionDate = PyStr ''2020-06-15'',
          OriginalPaperDOI = PyNaN\<rparr>,
         \<lparr>OriginalPaperDate = PyNaN, RetractionDate = PyStr ''2020-06-15'',
          OriginalPaperDOI = PyStr ''10.1/y''\<rparr>])
   = [\<lparr>OriginalPaperDate = PyStr ''2019-01-01'', RetractionDate = PyStr ''2020-06-15'',
       OriginalPaperDOI = PyStr ''10.1/x''\<rparr>] \<and>
   correction_time
     (fix_date_columns coerce_iso
        \<lparr>OriginalPaperDate = PyStr ''2019-01-01'', RetractionDate = PyStr ''2020-06-15'',
         OriginalPaperDOI = PyStr ''10.1/x''\<rparr>) = Some 531"
proof -
  have c1: "computable coerce_iso
        \<lparr>OriginalPaperDate = PyStr ''2019-01-01'', RetractionDate = PyStr ''2020-06-15'',
          OriginalPaperDOI = PyStr ''10.1/x''\<rparr>"
    by code_simp
  have c2: "computable coerce_iso
        \<lparr>OriginalPaperDate = PyStr ''2019-01-01'', RetractionDate = PyStr ''2020-06-15'',
          OriginalPaperDOI = PyNaN\<rparr>"
    by code_simp
  have c3: "\<not> computable coerce_iso
        \<lparr>OriginalPaperDate = PyNaN, RetractionDate = PyStr ''2020-06-15'',
          OriginalPaperDOI = PyStr ''10.1/y''\<rparr>"
    by code_simp
  have d: "correction_time
     (fix_date_columns coerce_iso
        \<lparr>OriginalPaperDate = PyStr ''2019-01-01'', RetractionDate = PyStr ''2020-06-15'',
         OriginalPaperDOI = PyStr ''10.1/x''\<rparr>) = Some 531"
    by code_simp
  from cleaning_keeps_exactly [of coerce_iso
        "[\<lparr>OriginalPaperDate = PyStr ''2019-01-01'', RetractionDate = PyStr ''2020-06-15'',
          OriginalPaperDOI = PyStr ''10.1/x''\<rparr>,
         \<lparr>OriginalPaperDate = PyStr ''2019-01-01'', RetractionDate = PyStr ''2020-06-15'',
          OriginalPaperDOI = PyNaN\<rparr>,
         \<lparr>OriginalPaperDate = PyNaN, RetractionDate = PyStr ''2020-06-15'',
          OriginalPaperDOI = PyStr ''10.1/y''\<rparr>]"] c1 c2 c3 d
  show ?thesis by simp
qed

end
